theory Spec2Isabelle
  imports Main
begin

section \<open>The formatter table\<close>

text \<open>
  Go strings and byte slices are sequences of bytes: both are \<open>char list\<close> here.
  A command is the program name followed by its arguments.
\<close>

type_synonym bytes = string
type_synonym command = "string list"

record formatter =
  Commands :: "command list"
  EmacsMajorModes :: "string list"
  Extensions :: "string list"

definition formatters :: "formatter list" where
  "formatters = [
     \<lparr>Commands = [[''clang-format'', ''-style=WebKit'', ''-'']],
      EmacsMajorModes = [''c-mode'', ''c++-mode''],
      Extensions = [''.c'', ''.cpp'', ''.cxx'', ''.h'', ''.hpp'', ''.hxx'']\<rparr>,
     \<lparr>Commands = [[''cssbeautify-bin'', ''--autosemicolon'', ''-f'', ''-'']],
      EmacsMajorModes = [''css-mode''],
      Extensions = [''.css'']\<rparr>,
     \<lparr>Commands = [[''goimports'']],
      EmacsMajorModes = [''go-mode''],
      Extensions = [''.go'']\<rparr>,
     \<lparr>Commands = [[''semistandard-format'', ''-'']],
      EmacsMajorModes = [''js-mode'', ''js2-mode'', ''js3-mode''],
      Extensions = [''.js'', ''.jsx'']\<rparr>,
     \<lparr>Commands = [[''jsonlint'', ''-'']],
      EmacsMajorModes = [''json-mode''],
      Extensions = [''.json'']\<rparr>,
     \<lparr>Commands = [[''autopep8'', ''--max-line-length=98'', ''-''],
                  [''isort'', ''--line-width'', ''98'', ''--multi_line'', ''3'', ''-'']],
      EmacsMajorModes = [''python-mode''],
      Extensions = [''.py'']\<rparr>,
     \<lparr>Commands = [[''sass-convert'', ''--no-cache'', ''--from'', ''sass'', ''--to'', ''sass'',
                   ''--indent'', ''4'', ''--stdin'']],
      EmacsMajorModes = [''sass-mode''],
      Extensions = [''.sass'']\<rparr>,
     \<lparr>Commands = [[''sass-convert'', ''--no-cache'', ''--from'', ''scss'', ''--to'', ''scss'',
                   ''--indent'', ''4'', ''--stdin'']],
      EmacsMajorModes = [''scss-mode''],
      Extensions = [''.scss'']\<rparr>]"

section \<open>Lookup maps\<close>

text \<open>
  A Go \<open>map[string]*formatter\<close> is a partial function. The table's entries are
  pairwise different values, so the value stored stands for the pointer to it.
  \<open>register\<close> is the body of the outer loop of \<open>init\<close>: one assignment per
  extension and per major mode, a later assignment overwriting an earlier one.
\<close>

type_synonym lookupMap = "string \<rightharpoonup> formatter"

definition register :: "formatter \<Rightarrow> lookupMap \<times> lookupMap \<Rightarrow> lookupMap \<times> lookupMap" where
  "register f maps =
     (let extMap = fold (\<lambda>ext m. m(ext \<mapsto> f)) (Extensions f) (snd maps);
          emacsMap = fold (\<lambda>majorMode m. m(majorMode \<mapsto> f)) (EmacsMajorModes f) (fst maps)
      in (emacsMap, extMap))"

definition init :: "lookupMap \<times> lookupMap" where
  "init = fold register formatters (Map.empty, Map.empty)"

definition emacsToFormatter :: lookupMap where
  "emacsToFormatter = fst init"

definition extToFormatter :: lookupMap where
  "extToFormatter = snd init"

definition formatterForEmacs :: "string \<Rightarrow> formatter option" where
  "formatterForEmacs emacs =
     (if emacs = [] then None
      else case emacsToFormatter emacs of None \<Rightarrow> None | Some formatter \<Rightarrow> Some formatter)"

subsection \<open>The extension of a path\<close>

text \<open>
  \<open>filepath.Ext\<close> belongs to the Go standard library, not to this program. It is
  written here after the library's loop on a Unix system, where \<open>/\<close> is the only
  path separator:
  \<^verbatim>\<open>for i := len(path) - 1; i >= 0 && !os.IsPathSeparator(path[i]); i-- {
      if path[i] == '.' { return path[i:] }
  }
  return ""\<close>
  The counter of \<open>Ext_loop\<close> is the library's \<open>i + 1\<close>.
\<close>

definition IsPathSeparator :: "char \<Rightarrow> bool" where
  "IsPathSeparator c = (c = CHR ''/'')"

fun Ext_loop :: "string \<Rightarrow> nat \<Rightarrow> string" where
  "Ext_loop path 0 = []"
| "Ext_loop path (Suc i) =
     (if IsPathSeparator (path ! i) then []
      else if path ! i = CHR ''.'' then drop i path
      else Ext_loop path i)"

definition filepath_Ext :: "string \<Rightarrow> string" where
  "filepath_Ext path = Ext_loop path (length path)"

definition formatterForPath :: "string \<Rightarrow> formatter option" where
  "formatterForPath path =
     (let ext = filepath_Ext path in
      if ext = [] then None
      else case extToFormatter ext of None \<Rightarrow> None | Some fmt \<Rightarrow> Some fmt)"

text \<open>
  The specification's wording of the extension, for comparison with the code: the
  substring from the last \<open>.\<close> of the whole path to its end, the dot included, when
  the path has a dot at all.
\<close>

fun last_dot_suffix :: "string \<Rightarrow> string option" where
  "last_dot_suffix [] = None"
| "last_dot_suffix (c # cs) =
     (case last_dot_suffix cs of
        Some ext \<Rightarrow> Some ext
      | None \<Rightarrow> if c = CHR ''.'' then Some (c # cs) else None)"

definition resolve_by_extension_spec :: "string \<Rightarrow> formatter option" where
  "resolve_by_extension_spec path =
     (case last_dot_suffix path of None \<Rightarrow> None | Some ext \<Rightarrow> extToFormatter ext)"

section \<open>The world outside the program\<close>

text \<open>
  Errors are values. \<open>ExecError\<close> stands for whatever \<open>cmd.Run\<close> returns (the
  program was not found, could not start, or ended with a non-zero status),
  \<open>PathError\<close> for a failed system call on a file, \<open>ErrorString\<close> for
  \<open>errors.New\<close>.
\<close>

datatype error = ExecError command nat | PathError string string | ErrorString string

text \<open>What \<open>log.Fatalln\<close> was given before it ended the process with status 1.\<close>

datatype logged = LogString string | LogError error

text \<open>
  How a call ends: it returns (\<open>Ok\<close> for a nil error or no result, \<open>Err\<close> for an
  error), it panics, or the process exits through \<open>log.Fatalln\<close>.
\<close>

datatype outcome = Ok | Err error | Panic string | Fatal logged

fun of_err :: "error option \<Rightarrow> outcome" where
  "of_err None = Ok"
| "of_err (Some err) = Err err"

text \<open>The calls that reach the operating system, in the order they are made.\<close>

datatype event =
    EvOpen string
  | EvOpenFile string
  | EvRun command
  | EvTruncate string
  | EvSeek string
  | EvWrite string bytes
  | EvStdout bytes

text \<open>A directory tree as \<open>filepath.Walk\<close> reads it: names, entries in lexical order.\<close>

datatype node = FileNode string | DirNode string "node list"

text \<open>
  An external program is a black box from its standard input to its standard output,
  as the formatters are: what it wrote, how much of its input it read, and what
  \<open>cmd.Run\<close> returned. It touches no file itself.
\<close>

record proc_result =
  written :: bytes
  consumed :: nat
  status :: "error option"

text \<open>
  Everything the program does not decide: the programs it runs, which system calls
  fail (a failed write reports how many bytes went through first), and the directory
  tree.
\<close>

record env =
  run_process :: "command \<Rightarrow> bytes \<Rightarrow> proc_result"
  open_error :: "string \<Rightarrow> error option"
  openfile_error :: "string \<Rightarrow> error option"
  truncate_error :: "string \<Rightarrow> error option"
  seek_error :: "string \<Rightarrow> error option"
  write_error :: "string \<Rightarrow> bytes \<Rightarrow> (nat \<times> error) option"
  stdout_error :: "bytes \<Rightarrow> (nat \<times> error) option"
  lstat :: "string \<Rightarrow> node option"

record world =
  files :: "string \<rightharpoonup> bytes"
  stdin :: bytes
  stdout :: bytes
  trace :: "event list"

definition emit :: "event \<Rightarrow> world \<Rightarrow> world" where
  "emit e w = w\<lparr>trace := trace w @ [e]\<rparr>"

definition contents :: "world \<Rightarrow> string \<Rightarrow> bytes" where
  "contents w name = (case files w name of None \<Rightarrow> [] | Some c \<Rightarrow> c)"

subsection \<open>Open files\<close>

text \<open>An \<open>*os.File\<close>: the file's name and the offset of the next read or write.\<close>

record os_File =
  fname :: string
  offset :: nat

definition os_Open :: "env \<Rightarrow> string \<Rightarrow> world \<Rightarrow> (error + os_File) \<times> world" where
  "os_Open env name w =
     (let w' = emit (EvOpen name) w in
      case files w name of
        None \<Rightarrow> (Inl (PathError ''open'' name), w')
      | Some c \<Rightarrow>
          (case open_error env name of
             Some err \<Rightarrow> (Inl err, w')
           | None \<Rightarrow> (Inr \<lparr>fname = name, offset = 0\<rparr>, w')))"

text \<open>\<open>os.OpenFile(path, os.O_RDWR, 0)\<close>: no \<open>O_CREATE\<close>, so a missing file is an error.\<close>

definition os_OpenFile :: "env \<Rightarrow> string \<Rightarrow> world \<Rightarrow> (error + os_File) \<times> world" where
  "os_OpenFile env name w =
     (let w' = emit (EvOpenFile name) w in
      case files w name of
        None \<Rightarrow> (Inl (PathError ''open'' name), w')
      | Some c \<Rightarrow>
          (case openfile_error env name of
             Some err \<Rightarrow> (Inl err, w')
           | None \<Rightarrow> (Inr \<lparr>fname = name, offset = 0\<rparr>, w')))"

text \<open>What a reader of the file still has before it, and the offset once some is read.\<close>

definition file_unread :: "world \<Rightarrow> os_File \<Rightarrow> bytes" where
  "file_unread w f = drop (offset f) (contents w (fname f))"

definition file_advance :: "world \<Rightarrow> os_File \<Rightarrow> bytes \<Rightarrow> os_File" where
  "file_advance w f unread = f\<lparr>offset := length (contents w (fname f)) - length unread\<rparr>"

definition resize :: "nat \<Rightarrow> bytes \<Rightarrow> bytes" where
  "resize n c = take n c @ replicate (n - length c) (CHR 0x00)"

definition write_at :: "bytes \<Rightarrow> nat \<Rightarrow> bytes \<Rightarrow> bytes" where
  "write_at c off data =
     (if data = [] then c else resize off c @ data @ drop (off + length data) c)"

text \<open>\<open>file.Truncate(size)\<close> changes the size and leaves the offset where it is.\<close>

definition file_Truncate :: "env \<Rightarrow> os_File \<Rightarrow> nat \<Rightarrow> world \<Rightarrow> error option \<times> world" where
  "file_Truncate env f sz w =
     (let w' = emit (EvTruncate (fname f)) w in
      case truncate_error env (fname f) of
        Some err \<Rightarrow> (Some err, w')
      | None \<Rightarrow>
          (None, w'\<lparr>files := (files w')(fname f \<mapsto> resize sz (contents w' (fname f)))\<rparr>))"

text \<open>\<open>file.Seek(off, os.SEEK_SET)\<close>.\<close>

definition file_Seek :: "env \<Rightarrow> os_File \<Rightarrow> nat \<Rightarrow> world \<Rightarrow> (error + os_File) \<times> world" where
  "file_Seek env f off w =
     (let w' = emit (EvSeek (fname f)) w in
      case seek_error env (fname f) of
        Some err \<Rightarrow> (Inl err, w')
      | None \<Rightarrow> (Inr (f\<lparr>offset := off\<rparr>), w'))"

subsection \<open>Writers\<close>

text \<open>
  The \<open>io.Writer\<close> values the program uses: a \<open>*bytes.Buffer\<close> with what it holds,
  \<open>os.Stdout\<close>, and an open file. \<open>io_Copy\<close> is \<open>io.Copy(dst, &buf)\<close> from a
  buffer holding \<open>data\<close>: the buffer's \<open>WriteTo\<close> makes no call when it is empty,
  appending to a buffer cannot fail, and a failed write to the standard output or to a
  file leaves there the bytes that went through.
\<close>

datatype writer = Buffer bytes | Stdout | File os_File

text \<open>\<open>buf.Bytes()\<close>; the program only asks a buffer for its bytes.\<close>

fun Bytes :: "writer \<Rightarrow> bytes" where
  "Bytes (Buffer b) = b"
| "Bytes Stdout = []"
| "Bytes (File f) = []"

fun io_Copy :: "env \<Rightarrow> writer \<Rightarrow> bytes \<Rightarrow> world \<Rightarrow> error option \<times> writer \<times> world" where
  "io_Copy env (Buffer b) data w = (None, Buffer (b @ data), w)"
| "io_Copy env Stdout data w =
     (if data = [] then (None, Stdout, w)
      else case stdout_error env data of
        None \<Rightarrow> (None, Stdout, emit (EvStdout data) (w\<lparr>stdout := stdout w @ data\<rparr>))
      | Some (n, err) \<Rightarrow>
          (Some err, Stdout,
           emit (EvStdout (take n data)) (w\<lparr>stdout := stdout w @ take n data\<rparr>)))"
| "io_Copy env (File f) data w =
     (if data = [] then (None, File f, w)
      else case write_error env (fname f) data of
        None \<Rightarrow>
          (None, File (f\<lparr>offset := offset f + length data\<rparr>),
           emit (EvWrite (fname f) data)
             (w\<lparr>files := (files w)(fname f \<mapsto> write_at (contents w (fname f)) (offset f) data)\<rparr>))
      | Some (n, err) \<Rightarrow>
          (Some err, File (f\<lparr>offset := offset f + length (take n data)\<rparr>),
           emit (EvWrite (fname f) (take n data))
             (w\<lparr>files := (files w)(fname f \<mapsto>
                   write_at (contents w (fname f)) (offset f) (take n data))\<rparr>)))"

section \<open>Low level operations\<close>

text \<open>
  \<open>format\<close> runs one command with \<open>src\<close> as its standard input and the buffer
  \<open>dst\<close> as its standard output. \<open>command[0]\<close> panics on an empty command. What the
  process wrote is in the buffer whether or not it failed. The result is the outcome,
  the buffer, what is left unread of \<open>src\<close>, and the world.
\<close>

definition format :: "env \<Rightarrow> bytes \<Rightarrow> bytes \<Rightarrow> command \<Rightarrow> world \<Rightarrow> outcome \<times> bytes \<times> bytes \<times> world" where
  "format env dst src command w =
     (case command of
        [] \<Rightarrow> (Panic ''index out of range'', dst, src, w)
      | name # arg \<Rightarrow>
          (let r = run_process env command src;
               w' = emit (EvRun command) w
           in (of_err (status r), dst @ written r, drop (consumed r) src, w')))"

text \<open>
  The loop of \<open>formatChain\<close> over \<open>commandChain\<close> from index \<open>i\<close>, with the local
  buffers \<open>buf\<close> and \<open>tmp\<close>. The first step reads \<open>src\<close>; a later one moves
  \<open>buf\<close> into the emptied \<open>tmp\<close> (a copy between buffers, which cannot fail),
  empties \<open>buf\<close> and reads \<open>tmp\<close>. It returns the outcome, what is left of
  \<open>src\<close>, \<open>buf\<close>, and the world.
\<close>

fun formatChain_loop ::
  "env \<Rightarrow> nat \<Rightarrow> command list \<Rightarrow> bytes \<Rightarrow> bytes \<Rightarrow> bytes \<Rightarrow> world \<Rightarrow> outcome \<times> bytes \<times> bytes \<times> world" where
  "formatChain_loop env i [] src buf tmp w = (Ok, src, buf, w)"
| "formatChain_loop env i (command # rest) src buf tmp w =
     (if i = 0 then
        (case format env buf src command w of
           (out, buf', src', w') \<Rightarrow>
             if out \<noteq> Ok then (out, src', buf', w')
             else formatChain_loop env (Suc i) rest src' buf' tmp w')
      else
        (case format env [] ([] @ buf) command w of
           (out, buf', tmp', w') \<Rightarrow>
             if out \<noteq> Ok then (out, src, buf', w')
             else formatChain_loop env (Suc i) rest src buf' tmp' w'))"

text \<open>
  \<open>formatChain\<close> copies \<open>buf\<close> to \<open>dst\<close> only after the loop has ended without an
  error. It returns the outcome, \<open>dst\<close>, what is left of \<open>src\<close>, and the world.
\<close>

definition formatChain ::
  "env \<Rightarrow> writer \<Rightarrow> bytes \<Rightarrow> command list \<Rightarrow> world \<Rightarrow> outcome \<times> writer \<times> bytes \<times> world" where
  "formatChain env dst src commandChain w =
     (case formatChain_loop env 0 commandChain src [] [] w of
        (out, src', buf, w') \<Rightarrow>
          if out \<noteq> Ok then (out, dst, src', w')
          else (case io_Copy env dst buf w' of
                  (err, dst', w'') \<Rightarrow> (of_err err, dst', src', w'')))"

text \<open>
  \<open>formatWrite\<close>: the first command reads the file through the descriptor it was
  opened with, so the offset afterwards is wherever that program stopped reading.
  Closing the file (the deferred call) changes nothing that is modelled.
\<close>

definition formatWrite :: "env \<Rightarrow> string \<Rightarrow> formatter \<Rightarrow> world \<Rightarrow> outcome \<times> world" where
  "formatWrite env path fmt w =
     (case os_OpenFile env path w of
        (Inl err, w1) \<Rightarrow> (Err err, w1)
      | (Inr file, w1) \<Rightarrow>
          (case formatChain env (Buffer []) (file_unread w1 file) (Commands fmt) w1 of
             (out, buf, unread, w2) \<Rightarrow>
               if out \<noteq> Ok then (out, w2)
               else
                 (case file_Truncate env (file_advance w1 file unread) 0 w2 of
                    (Some err, w3) \<Rightarrow> (Err err, w3)
                  | (None, w3) \<Rightarrow>
                      (case file_Seek env (file_advance w1 file unread) 0 w3 of
                         (Inl err, w4) \<Rightarrow> (Err err, w4)
                       | (Inr file', w4) \<Rightarrow>
                           (case io_Copy env (File file') (Bytes buf) w4 of
                              (err, dst, w5) \<Rightarrow> (of_err err, w5))))))"

definition formatStdout :: "env \<Rightarrow> string \<Rightarrow> formatter \<Rightarrow> world \<Rightarrow> outcome \<times> world" where
  "formatStdout env path fmt w =
     (case os_Open env path w of
        (Inl err, w1) \<Rightarrow> (Err err, w1)
      | (Inr file, w1) \<Rightarrow>
          (case formatChain env Stdout (file_unread w1 file) (Commands fmt) w1 of
             (out, dst, unread, w2) \<Rightarrow> (out, w2)))"

section \<open>High level operations\<close>

type_synonym formatOp = "env \<Rightarrow> string \<Rightarrow> formatter \<Rightarrow> world \<Rightarrow> outcome \<times> world"

text \<open>\<open>log.Fatalln(err)\<close> on an error of the operation; a panic or an exit passes through.\<close>

definition formatFile :: "env \<Rightarrow> string \<Rightarrow> formatOp \<Rightarrow> world \<Rightarrow> outcome \<times> world" where
  "formatFile env path op w =
     (case formatterForPath path of
        None \<Rightarrow> (Ok, w)
      | Some formatter \<Rightarrow>
          (case op env path formatter w of
             (Err err, w') \<Rightarrow> (Fatal (LogError err), w')
           | (out, w') \<Rightarrow> (out, w')))"

definition formatStdin :: "env \<Rightarrow> string \<Rightarrow> world \<Rightarrow> outcome \<times> world" where
  "formatStdin env emacs w =
     (case formatterForEmacs emacs of
        None \<Rightarrow> (Fatal (LogString ''Must be given an Emacs major mode''), w)
      | Some formatter \<Rightarrow>
          (case formatChain env Stdout (stdin w) (Commands formatter) w of
             (Err err, dst, unread, w') \<Rightarrow> (Fatal (LogError err), w'\<lparr>stdin := unread\<rparr>)
           | (out, dst, unread, w') \<Rightarrow> (out, w'\<lparr>stdin := unread\<rparr>)))"

definition IgnoreDirs :: "string list" where
  "IgnoreDirs = [''.git'', ''.hg'', ''.svn'', ''node_modules'']"

definition Join :: "string \<Rightarrow> string \<Rightarrow> string" where
  "Join dir name = dir @ ''/'' @ name"

text \<open>
  \<open>filepath.Walk\<close> with the function \<open>formatDir\<close> gives it, over a tree that can be
  read without error: a directory named in \<open>IgnoreDirs\<close> is skipped with all below
  it, every other file is given to \<open>formatFile\<close>, and an exit or a panic ends the walk.
\<close>

fun walk :: "env \<Rightarrow> formatOp \<Rightarrow> string \<Rightarrow> node \<Rightarrow> world \<Rightarrow> outcome \<times> world"
  and walk_entries :: "env \<Rightarrow> formatOp \<Rightarrow> string \<Rightarrow> node list \<Rightarrow> world \<Rightarrow> outcome \<times> world" where
  "walk env op path (FileNode name) w = formatFile env path op w"
| "walk env op path (DirNode name entries) w =
     (if name \<in> set IgnoreDirs then (Ok, w) else walk_entries env op path entries w)"
| "walk_entries env op dir [] w = (Ok, w)"
| "walk_entries env op dir (FileNode name # rest) w =
     (case walk env op (Join dir name) (FileNode name) w of
        (out, w') \<Rightarrow> if out \<noteq> Ok then (out, w') else walk_entries env op dir rest w')"
| "walk_entries env op dir (DirNode name entries # rest) w =
     (case walk env op (Join dir name) (DirNode name entries) w of
        (out, w') \<Rightarrow> if out \<noteq> Ok then (out, w') else walk_entries env op dir rest w')"

text \<open>\<open>dry.FileIsDir\<close>: the path exists and is a directory.\<close>

definition FileIsDir :: "env \<Rightarrow> string \<Rightarrow> bool" where
  "FileIsDir env path = (case lstat env path of Some (DirNode name entries) \<Rightarrow> True | _ \<Rightarrow> False)"

text \<open>A root that cannot be read reaches the walk function with a nil \<open>info\<close>, which it dereferences.\<close>

definition formatDir :: "env \<Rightarrow> string \<Rightarrow> formatOp \<Rightarrow> world \<Rightarrow> outcome \<times> world" where
  "formatDir env path op w =
     (case lstat env path of
        None \<Rightarrow> (Panic ''nil pointer dereference'', w)
      | Some root \<Rightarrow> walk env op path root w)"

section \<open>Entry point\<close>

text \<open>
  \<open>main\<close> of \<^verbatim>\<open>metafmt.go\<close>, from the parsed flags \<open>emacs\<close> and \<open>write\<close> and
  the remaining arguments \<open>flag.Args()\<close>. \<open>main_loop\<close> is its loop over the paths.
\<close>

fun main_loop :: "env \<Rightarrow> formatOp \<Rightarrow> string list \<Rightarrow> world \<Rightarrow> outcome \<times> world" where
  "main_loop env op [] w = (Ok, w)"
| "main_loop env op (path # rest) w =
     (case (if FileIsDir env path then formatDir env path op w else formatFile env path op w) of
        (out, w') \<Rightarrow> if out \<noteq> Ok then (out, w') else main_loop env op rest w')"

definition main :: "env \<Rightarrow> string \<Rightarrow> bool \<Rightarrow> string list \<Rightarrow> world \<Rightarrow> outcome \<times> world" where
  "main env emacs write args w =
     (if length args < 1 then (Ok, w)
      else if length args = 1 \<and> args ! 0 = ''-'' then formatStdin env emacs w
      else main_loop env (if write then formatWrite else formatStdout) args w)"

subsection \<open>The second copy of the program\<close>

text \<open>
  The repository holds a second file with the same package and the same low level
  operations, whose \<open>formatStdin\<close> returns its error to \<open>main\<close> and whose \<open>main\<close>
  loops over \<open>args[1:]\<close>, resolving the formatter itself. Its definitions carry the
  suffix \<open>_2\<close>.
\<close>

definition formatStdin_2 :: "env \<Rightarrow> string \<Rightarrow> world \<Rightarrow> outcome \<times> world" where
  "formatStdin_2 env emacs w =
     (case formatterForEmacs emacs of
        None \<Rightarrow> (Err (ErrorString ''Must be given an Emacs major mode''), w)
      | Some formatter \<Rightarrow>
          (case formatChain env Stdout (stdin w) (Commands formatter) w of
             (out, dst, unread, w') \<Rightarrow> (out, w'\<lparr>stdin := unread\<rparr>)))"

fun main_loop_2 :: "env \<Rightarrow> formatOp \<Rightarrow> string list \<Rightarrow> world \<Rightarrow> outcome \<times> world" where
  "main_loop_2 env formatterFunc [] w = (Ok, w)"
| "main_loop_2 env formatterFunc (path # rest) w =
     (case formatterForPath path of
        None \<Rightarrow> main_loop_2 env formatterFunc rest w
      | Some formatter \<Rightarrow>
          (case formatterFunc env path formatter w of
             (Err err, w') \<Rightarrow> (Fatal (LogError err), w')
           | (out, w') \<Rightarrow> if out \<noteq> Ok then (out, w') else main_loop_2 env formatterFunc rest w'))"

definition main_2 :: "env \<Rightarrow> string \<Rightarrow> bool \<Rightarrow> string list \<Rightarrow> world \<Rightarrow> outcome \<times> world" where
  "main_2 env emacs write args w =
     (if length args < 1 then (Ok, w)
      else if length args = 1 \<and> args ! 0 = ''-'' then
        (case formatStdin_2 env emacs w of
           (Err err, w') \<Rightarrow> (Fatal (LogError err), w')
         | (out, w') \<Rightarrow> (out, w'))
      else main_loop_2 env (if write then formatWrite else formatStdout) (drop 1 args) w)"

section \<open>Notions the properties are stated with\<close>

text \<open>
  The chain as the specification describes it: each command's output is the next
  command's input, from left to right. \<open>pipeline\<close> is the composition of what the
  processes write; \<open>stages_succeed\<close> says that every command in turn is runnable and
  that \<open>cmd.Run\<close> returns no error for it on the input it gets.
\<close>

fun pipeline :: "env \<Rightarrow> command list \<Rightarrow> bytes \<Rightarrow> bytes" where
  "pipeline env [] input = input"
| "pipeline env (command # rest) input =
     pipeline env rest (written (run_process env command input))"

fun stages_succeed :: "env \<Rightarrow> command list \<Rightarrow> bytes \<Rightarrow> bool" where
  "stages_succeed env [] input = True"
| "stages_succeed env (command # rest) input =
     (command \<noteq> [] \<and> status (run_process env command input) = None
      \<and> stages_succeed env rest (written (run_process env command input)))"

text \<open>What a chain whose stages all succeed hands to its destination: nothing when it is empty.\<close>

definition chain_output :: "env \<Rightarrow> command list \<Rightarrow> bytes \<Rightarrow> bytes" where
  "chain_output env commandChain input =
     (if commandChain = [] then [] else pipeline env commandChain input)"

text \<open>What is left of the source once the first command, if there is one, has read from it.\<close>

definition left_unread :: "env \<Rightarrow> command list \<Rightarrow> bytes \<Rightarrow> bytes" where
  "left_unread env commandChain src =
     (case commandChain of
        [] \<Rightarrow> src
      | command # rest \<Rightarrow> drop (consumed (run_process env command src)) src)"

text \<open>The events that change a file: truncating it, moving its offset, writing to it.\<close>

fun touches_file :: "event \<Rightarrow> bool" where
  "touches_file (EvTruncate name) = True"
| "touches_file (EvSeek name) = True"
| "touches_file (EvWrite name data) = True"
| "touches_file ev = False"

fun is_run :: "event \<Rightarrow> bool" where
  "is_run (EvRun command) = True"
| "is_run ev = False"

subsection \<open>Concrete environments and worlds\<close>

text \<open>
  \<open>tagging_env\<close>: every program copies its input and appends its own name in
  brackets, and no system call fails. \<open>isort_fails_env\<close>: the same, but \<open>isort\<close>
  ends with status 1 after writing. \<open>disk_full_env\<close>: the same as the first, but a
  write to a file fails after one byte.
\<close>

definition tag_process :: "command \<Rightarrow> bytes \<Rightarrow> proc_result" where
  "tag_process command input =
     \<lparr>written = input @ ''['' @ concat (take 1 command) @ '']'',
      consumed = length input,
      status = None\<rparr>"

definition tagging_env :: env where
  "tagging_env =
     \<lparr>run_process = tag_process,
      open_error = (\<lambda>name. None),
      openfile_error = (\<lambda>name. None),
      truncate_error = (\<lambda>name. None),
      seek_error = (\<lambda>name. None),
      write_error = (\<lambda>name data. None),
      stdout_error = (\<lambda>data. None),
      lstat = (\<lambda>name. None)\<rparr>"

definition isort_fails_env :: env where
  "isort_fails_env =
     tagging_env\<lparr>run_process := (\<lambda>command input.
        if take 1 command = [''isort'']
        then (tag_process command input)\<lparr>status := Some (ExecError command 1)\<rparr>
        else tag_process command input)\<rparr>"

definition disk_full_env :: env where
  "disk_full_env =
     tagging_env\<lparr>write_error := (\<lambda>name data. Some (1, PathError ''write'' name))\<rparr>"

definition small_world :: world where
  "small_world =
     \<lparr>files = [''a.py'' \<mapsto> ''x=1'', ''a.go'' \<mapsto> ''package a''],
      stdin = ''input'',
      stdout = [],
      trace = []\<rparr>"

definition python_formatter :: formatter where
  "python_formatter =
     \<lparr>Commands = [[''autopep8'', ''--max-line-length=98'', ''-''],
                  [''isort'', ''--line-width'', ''98'', ''--multi_line'', ''3'', ''-'']],
      EmacsMajorModes = [''python-mode''],
      Extensions = [''.py'']\<rparr>"

definition go_formatter :: formatter where
  "go_formatter =
     \<lparr>Commands = [[''goimports'']],
      EmacsMajorModes = [''go-mode''],
      Extensions = [''.go'']\<rparr>"

section \<open>The registry\<close>


lemma fold_upd_apply:
  "fold (\<lambda>k m. m(k \<mapsto> v)) ks m k' = (if k' \<in> set ks then Some v else m k')"
  by (induction ks arbitrary: m) auto

lemma register_snd:
  "snd (register f maps) k = (if k \<in> set (Extensions f) then Some f else snd maps k)"
  by (simp add: register_def Let_def fold_upd_apply)

lemma register_fst:
  "fst (register f maps) k = (if k \<in> set (EmacsMajorModes f) then Some f else fst maps k)"
  by (simp add: register_def Let_def fold_upd_apply)

lemma snd_fold_register:
  "snd (fold register fs maps) k =
     (case find (\<lambda>f. k \<in> set (Extensions f)) (rev fs) of None \<Rightarrow> snd maps k | Some f \<Rightarrow> Some f)"
  by (induction fs arbitrary: maps rule: rev_induct) (auto simp: register_snd)

lemma fst_fold_register:
  "fst (fold register fs maps) k =
     (case find (\<lambda>f. k \<in> set (EmacsMajorModes f)) (rev fs) of None \<Rightarrow> fst maps k | Some f \<Rightarrow> Some f)"
  by (induction fs arbitrary: maps rule: rev_induct) (auto simp: register_fst)

lemma extToFormatter_find:
  "extToFormatter k = find (\<lambda>f. k \<in> set (Extensions f)) (rev formatters)"
  by (simp add: extToFormatter_def init_def snd_fold_register split: option.splits)

lemma emacsToFormatter_find:
  "emacsToFormatter k = find (\<lambda>f. k \<in> set (EmacsMajorModes f)) (rev formatters)"
  by (simp add: emacsToFormatter_def init_def fst_fold_register split: option.splits)

lemma find_last_unique:
  "distinct (concat (map E fs)) \<Longrightarrow> f \<in> set fs \<Longrightarrow> k \<in> set (E f) \<Longrightarrow>
   find (\<lambda>g. k \<in> set (E g)) (rev fs) = Some f"
  by (induction fs rule: rev_induct) auto

lemma find_member: "find P xs = Some x \<Longrightarrow> x \<in> set xs \<and> P x"
  by (induction xs) (auto split: if_splits)

lemma distinct_extensions: "distinct (concat (map Extensions formatters))"
  by (simp add: formatters_def)

lemma distinct_modes: "distinct (concat (map EmacsMajorModes formatters))"
  by (simp add: formatters_def)

lemma extToFormatter_registered:
  "f \<in> set formatters \<Longrightarrow> ext \<in> set (Extensions f) \<Longrightarrow> extToFormatter ext = Some f"
  by (simp add: extToFormatter_find find_last_unique [OF distinct_extensions])

lemma extToFormatter_Some:
  "extToFormatter ext = Some f \<Longrightarrow> f \<in> set formatters \<and> ext \<in> set (Extensions f)"
  using find_member [of "\<lambda>f. ext \<in> set (Extensions f)" "rev formatters" f]
  by (simp add: extToFormatter_find)

lemma extToFormatter_None:
  "extToFormatter ext = None \<longleftrightarrow> (\<forall>f \<in> set formatters. ext \<notin> set (Extensions f))"
  by (auto simp: extToFormatter_find find_None_iff)

lemma registered_shape:
  "f \<in> set formatters \<Longrightarrow> e \<in> set (Extensions f) \<Longrightarrow>
   \<exists>rest. e = CHR ''.'' # rest \<and> CHR ''.'' \<notin> set rest \<and> (\<forall>c \<in> set rest. \<not> IsPathSeparator c)"
  by (auto simp: formatters_def IsPathSeparator_def)

lemma dot_not_separator: "\<not> IsPathSeparator (CHR ''.'')"
  by (simp add: IsPathSeparator_def)

lemma Ext_loop_suffix:
  "CHR ''.'' \<notin> set rest \<Longrightarrow> \<forall>c \<in> set rest. \<not> IsPathSeparator c \<Longrightarrow> j \<le> length rest \<Longrightarrow>
   Ext_loop (p @ CHR ''.'' # rest) (Suc (length p + j)) = CHR ''.'' # rest"
proof (induction j)
  case 0
  then show ?case by (simp add: dot_not_separator)
next
  case (Suc j)
  then have "j < length rest" by simp
  then have "rest ! j \<in> set rest" by simp
  with Suc.prems have "rest ! j \<noteq> CHR ''.''" "\<not> IsPathSeparator (rest ! j)" by metis+
  moreover have "(p @ CHR ''.'' # rest) ! (Suc (length p + j)) = rest ! j"
    by (simp add: nth_append)
  ultimately show ?case using Suc by simp
qed

lemma filepath_Ext_suffix:
  "CHR ''.'' \<notin> set rest \<Longrightarrow> \<forall>c \<in> set rest. \<not> IsPathSeparator c \<Longrightarrow>
   filepath_Ext (p @ CHR ''.'' # rest) = CHR ''.'' # rest"
  using Ext_loop_suffix [of rest "length rest" p] by (simp add: filepath_Ext_def)

lemma Ext_loop_no_dot:
  "n \<le> length path \<Longrightarrow> CHR ''.'' \<notin> set (take n path) \<Longrightarrow> Ext_loop path n = []"
proof (induction n)
  case 0
  then show ?case by simp
next
  case (Suc n)
  then have "take (Suc n) path = take n path @ [path ! n]"
    by (simp add: take_Suc_conv_app_nth)
  with Suc show ?case by auto
qed

lemma filepath_Ext_no_dot: "CHR ''.'' \<notin> set path \<Longrightarrow> filepath_Ext path = []"
  by (simp add: filepath_Ext_def Ext_loop_no_dot)

lemma Ext_loop_separator:
  "CHR ''.'' \<notin> set rest \<Longrightarrow> j \<le> length rest \<Longrightarrow> \<exists>c \<in> set (take j rest). IsPathSeparator c \<Longrightarrow>
   Ext_loop (p @ CHR ''.'' # rest) (Suc (length p + j)) = []"
proof (induction j)
  case 0
  then show ?case by simp
next
  case (Suc j)
  then have j: "j < length rest" by simp
  then have "rest ! j \<in> set rest" by simp
  with Suc.prems have nd: "rest ! j \<noteq> CHR ''.''" by metis
  have nth: "(p @ CHR ''.'' # rest) ! (Suc (length p + j)) = rest ! j"
    by (simp add: nth_append)
  show ?case
  proof (cases "IsPathSeparator (rest ! j)")
    case True
    with nth show ?thesis by simp
  next
    case False
    from j have "take (Suc j) rest = take j rest @ [rest ! j]"
      by (simp add: take_Suc_conv_app_nth)
    with Suc.prems(3) False have "\<exists>c \<in> set (take j rest). IsPathSeparator c" by auto
    with Suc.IH Suc.prems j have "Ext_loop (p @ CHR ''.'' # rest) (Suc (length p + j)) = []" by simp
    with nth nd False show ?thesis by simp
  qed
qed

lemma filepath_Ext_separator:
  "CHR ''.'' \<notin> set rest \<Longrightarrow> \<exists>c \<in> set rest. IsPathSeparator c \<Longrightarrow>
   filepath_Ext (p @ CHR ''.'' # rest) = []"
  using Ext_loop_separator [of rest "length rest" p] by (simp add: filepath_Ext_def)

lemma last_dot_suffix_None: "last_dot_suffix path = None \<longleftrightarrow> CHR ''.'' \<notin> set path"
  by (induction path) (auto split: option.splits)

lemma last_dot_suffix_split:
  "CHR ''.'' \<notin> set rest \<Longrightarrow> last_dot_suffix (p @ CHR ''.'' # rest) = Some (CHR ''.'' # rest)"
proof -
  assume "CHR ''.'' \<notin> set rest"
  then have "last_dot_suffix rest = None" by (simp add: last_dot_suffix_None)
  then show ?thesis by (induction p) simp_all
qed

lemma case_option_id: "(case x of None \<Rightarrow> None | Some y \<Rightarrow> Some y) = x"
  by (cases x) simp_all

lemma formatterForPath_lookup:
  "formatterForPath path = (if filepath_Ext path = [] then None else extToFormatter (filepath_Ext path))"
  by (simp add: formatterForPath_def Let_def case_option_id)

lemma separator_not_registered:
  "\<exists>c \<in> set ext. IsPathSeparator c \<Longrightarrow> extToFormatter ext = None"
proof -
  assume sep: "\<exists>c \<in> set ext. IsPathSeparator c"
  have "ext \<notin> set (Extensions f)" if "f \<in> set formatters" for f
  proof
    assume "ext \<in> set (Extensions f)"
    with that obtain rest where "ext = CHR ''.'' # rest" "\<forall>c \<in> set rest. \<not> IsPathSeparator c"
      using registered_shape by blast
    with sep show False by (auto simp: dot_not_separator)
  qed
  then show ?thesis by (simp add: extToFormatter_None)
qed

section \<open>Running a chain\<close>



lemma emit_simps [simp]:
  "files (emit e w) = files w" "stdin (emit e w) = stdin w" "stdout (emit e w) = stdout w"
  "trace (emit e w) = trace w @ [e]"
  by (simp_all add: emit_def)

lemma format_Nil: "format env dst src [] w = (Panic ''index out of range'', dst, src, w)"
  by (simp add: format_def)

lemma format_Cons:
  "command \<noteq> [] \<Longrightarrow> format env dst src command w =
     (of_err (status (run_process env command src)), dst @ written (run_process env command src),
      drop (consumed (run_process env command src)) src, emit (EvRun command) w)"
  by (cases command) (simp_all add: format_def Let_def)

lemma format_Ok_iff:
  "fst (format env dst src command w) = Ok \<longleftrightarrow>
     command \<noteq> [] \<and> status (run_process env command src) = None"
  by (cases command; cases "status (run_process env command src)") (simp_all add: format_def Let_def)

lemma of_err_Ok_iff: "of_err x = Ok \<longleftrightarrow> x = None"
  by (cases x) simp_all

lemma emit_trace_append:
  "emit e w\<lparr>trace := trace (emit e w) @ es\<rparr> = w\<lparr>trace := trace w @ e # es\<rparr>"
  by (simp add: emit_def)

lemma loop_later_succeeds:
  "0 < i \<Longrightarrow> stages_succeed env chain buf \<Longrightarrow>
   formatChain_loop env i chain src buf tmp w =
     (Ok, src, pipeline env chain buf, w\<lparr>trace := trace w @ map EvRun chain\<rparr>)"
proof (induction chain arbitrary: i buf tmp w)
  case Nil
  then show ?case by simp
next
  case (Cons command rest)
  then show ?case
    by (simp add: format_Cons of_err_Ok_iff emit_trace_append)
qed

lemma loop_succeeds:
  "stages_succeed env chain src \<Longrightarrow> chain \<noteq> [] \<Longrightarrow>
   formatChain_loop env 0 chain src [] [] w =
     (Ok, left_unread env chain src, pipeline env chain src, w\<lparr>trace := trace w @ map EvRun chain\<rparr>)"
  by (cases chain) (simp_all add: format_Cons loop_later_succeeds left_unread_def emit_trace_append)

lemma loop_later_fails:
  "0 < i \<Longrightarrow> stages_succeed env pre buf \<Longrightarrow> command \<noteq> [] \<Longrightarrow>
   status (run_process env command (pipeline env pre buf)) = Some err \<Longrightarrow>
   formatChain_loop env i (pre @ command # post) src buf tmp w =
     (Err err, src, written (run_process env command (pipeline env pre buf)),
      w\<lparr>trace := trace w @ map EvRun (pre @ [command])\<rparr>)"
proof (induction pre arbitrary: i buf tmp w)
  case Nil
  then show ?case by (simp add: format_Cons emit_def)
next
  case (Cons c pre)
  then show ?case
    by (simp add: format_Cons of_err_Ok_iff emit_trace_append)
qed

lemma loop_fails:
  assumes "stages_succeed env pre src" and "command \<noteq> []"
    and "status (run_process env command (pipeline env pre src)) = Some err"
  shows "formatChain_loop env 0 (pre @ command # post) src [] [] w =
     (Err err, left_unread env (pre @ command # post) src,
      written (run_process env command (pipeline env pre src)),
      w\<lparr>trace := trace w @ map EvRun (pre @ [command])\<rparr>)"
proof (cases pre)
  case Nil
  with assms show ?thesis by (simp add: format_Cons left_unread_def emit_def)
next
  case (Cons c pre')
  with assms show ?thesis
    using loop_later_fails [of "Suc 0" env pre' "written (run_process env c src)" command err post]
    by (simp add: format_Cons of_err_Ok_iff left_unread_def emit_trace_append)
qed


lemma formatChain_succeeds:
  assumes "chain \<noteq> []" and "stages_succeed env chain src"
  shows "formatChain env dst src chain w =
     (case io_Copy env dst (pipeline env chain src) (w\<lparr>trace := trace w @ map EvRun chain\<rparr>) of
        (err, dst', w') \<Rightarrow> (of_err err, dst', left_unread env chain src, w'))"
  using assms by (simp add: formatChain_def loop_succeeds)

lemma formatChain_fails:
  assumes "stages_succeed env pre src" and "command \<noteq> []"
    and "status (run_process env command (pipeline env pre src)) = Some err"
  shows "formatChain env dst src (pre @ command # post) w =
     (Err err, dst, left_unread env (pre @ command # post) src,
      w\<lparr>trace := trace w @ map EvRun (pre @ [command])\<rparr>)"
  using assms by (simp add: formatChain_def loop_fails)





lemma trace_append_Nil: "w = w\<lparr>trace := trace w @ []\<rparr>"
  by simp

lemma loop_later_world:
  "0 < i \<Longrightarrow> \<exists>es. snd (snd (snd (formatChain_loop env i chain src buf tmp w))) = w\<lparr>trace := trace w @ es\<rparr>
        \<and> (\<forall>e \<in> set es. is_run e)"
proof (induction chain arbitrary: i buf tmp w)
  case Nil
  show ?case using trace_append_Nil [of w] by (intro exI [of _ "[]"]) simp
next
  case (Cons command rest)
  show ?case
  proof (cases "command = []")
    case True
    with Cons.prems show ?thesis
      using trace_append_Nil [of w] by (intro exI [of _ "[]"]) (simp add: format_Nil)
  next
    case False
    let ?r = "run_process env command buf"
    show ?thesis
    proof (cases "status ?r")
      case (Some err)
      with False Cons.prems show ?thesis
        by (intro exI [of _ "[EvRun command]"]) (simp add: format_Cons emit_def)
    next
      case None
      obtain es where es:
        "snd (snd (snd (formatChain_loop env (Suc i) rest src (written ?r) (drop (consumed ?r) buf)
            (emit (EvRun command) w))))
         = emit (EvRun command) w\<lparr>trace := trace (emit (EvRun command) w) @ es\<rparr>"
        "\<forall>e \<in> set es. is_run e"
        using Cons.IH [of "Suc i"] by blast
      with False None Cons.prems show ?thesis
        by (intro exI [of _ "EvRun command # es"]) (simp add: format_Cons emit_trace_append)
    qed
  qed
qed

lemma loop_world:
  "\<exists>es. snd (snd (snd (formatChain_loop env 0 chain src [] [] w))) = w\<lparr>trace := trace w @ es\<rparr>
        \<and> (\<forall>e \<in> set es. is_run e)"
proof (cases chain)
  case Nil
  then show ?thesis using trace_append_Nil [of w] by (intro exI [of _ "[]"]) simp
next
  case (Cons command rest)
  show ?thesis
  proof (cases "command = []")
    case True
    with Cons show ?thesis
      using trace_append_Nil [of w] by (intro exI [of _ "[]"]) (simp add: format_Nil)
  next
    case False
    let ?r = "run_process env command src"
    show ?thesis
    proof (cases "status ?r")
      case (Some err)
      with False Cons show ?thesis
        by (intro exI [of _ "[EvRun command]"]) (simp add: format_Cons emit_def)
    next
      case None
      obtain es where es:
        "snd (snd (snd (formatChain_loop env (Suc 0) rest (drop (consumed ?r) src) (written ?r) []
            (emit (EvRun command) w))))
         = emit (EvRun command) w\<lparr>trace := trace (emit (EvRun command) w) @ es\<rparr>"
        "\<forall>e \<in> set es. is_run e"
        using loop_later_world [of "Suc 0"] by blast
      with False None Cons show ?thesis
        by (intro exI [of _ "EvRun command # es"]) (simp add: format_Cons emit_trace_append)
    qed
  qed
qed

lemma loop_later_Ok_iff:
  "0 < i \<Longrightarrow> fst (formatChain_loop env i chain src buf tmp w) = Ok \<longleftrightarrow> stages_succeed env chain buf"
proof (induction chain arbitrary: i buf tmp w)
  case Nil
  then show ?case by simp
next
  case (Cons command rest)
  show ?case
  proof (cases "command = []")
    case True
    with Cons.prems show ?thesis by (simp add: format_Nil)
  next
    case False
    with Cons.prems show ?thesis
      by (auto simp: format_Cons of_err_Ok_iff Cons.IH)
  qed
qed

lemma loop_Ok_iff:
  "fst (formatChain_loop env 0 chain src [] [] w) = Ok \<longleftrightarrow> stages_succeed env chain src"
proof (cases chain)
  case Nil
  then show ?thesis by simp
next
  case (Cons command rest)
  show ?thesis
  proof (cases "command = []")
    case True
    with Cons show ?thesis by (simp add: format_Nil)
  next
    case False
    with Cons show ?thesis
      by (auto simp: format_Cons of_err_Ok_iff loop_later_Ok_iff)
  qed
qed

lemma formatChain_stage_fails:
  assumes "\<not> stages_succeed env chain src"
  shows "\<exists>out unread es. out \<noteq> Ok \<and> formatChain env dst src chain w = (out, dst, unread, w\<lparr>trace := trace w @ es\<rparr>)
           \<and> (\<forall>e \<in> set es. is_run e)"
proof -
  obtain out unread buf w' where l: "formatChain_loop env 0 chain src [] [] w = (out, unread, buf, w')"
    by (metis prod_cases4)
  with assms loop_Ok_iff [of env chain src w] have "out \<noteq> Ok" by simp
  moreover from l loop_world [of env chain src w]
  obtain es where "w' = w\<lparr>trace := trace w @ es\<rparr>" "\<forall>e \<in> set es. is_run e" by auto
  ultimately show ?thesis using l by (auto simp: formatChain_def)
qed

lemma formatChain_Buffer_succeeds:
  assumes "stages_succeed env chain src"
  shows "formatChain env (Buffer b) src chain w =
     (Ok, Buffer (b @ chain_output env chain src), left_unread env chain src,
      w\<lparr>trace := trace w @ map EvRun chain\<rparr>)"
proof (cases "chain = []")
  case True
  with trace_append_Nil [of w] show ?thesis
    by (simp add: formatChain_def chain_output_def left_unread_def)
next
  case False
  with assms show ?thesis by (simp add: formatChain_succeeds chain_output_def)
qed

lemma is_run_not_touches: "is_run e \<Longrightarrow> \<not> touches_file e"
  by (cases e) simp_all

lemma os_OpenFile_Some:
  "files w path = Some A \<Longrightarrow> os_OpenFile env path w =
     (case openfile_error env path of
        Some err \<Rightarrow> (Inl err, emit (EvOpenFile path) w)
      | None \<Rightarrow> (Inr \<lparr>fname = path, offset = 0\<rparr>, emit (EvOpenFile path) w))"
  by (simp add: os_OpenFile_def Let_def)

lemma formatWrite_chain_fails:
  assumes "files w path = Some A" and "\<not> stages_succeed env (Commands fmt) A"
  shows "fst (formatWrite env path fmt w) \<noteq> Ok
       \<and> files (snd (formatWrite env path fmt w)) = files w
       \<and> (\<forall>e \<in> set (drop (length (trace w)) (trace (snd (formatWrite env path fmt w)))). \<not> touches_file e)"
proof (cases "openfile_error env path")
  case (Some err)
  with assms(1) show ?thesis by (simp add: formatWrite_def os_OpenFile_Some)
next
  case None
  let ?w1 = "emit (EvOpenFile path) w"
  from assms(1) have A: "file_unread ?w1 \<lparr>fname = path, offset = 0\<rparr> = A"
    by (simp add: file_unread_def contents_def)
  obtain out unread es where c: "out \<noteq> Ok"
    "formatChain env (Buffer []) A (Commands fmt) ?w1 = (out, Buffer [], unread, ?w1\<lparr>trace := trace ?w1 @ es\<rparr>)"
    "\<forall>e \<in> set es. is_run e"
    using formatChain_stage_fails [OF assms(2)] by blast
  with assms(1) None A show ?thesis
    by (auto simp: formatWrite_def os_OpenFile_Some is_run_not_touches)
qed

lemma formatWrite_chain_succeeds:
  assumes "files w path = Some A" and "stages_succeed env (Commands fmt) A"
    and "openfile_error env path = None" and "truncate_error env path = None"
    and "seek_error env path = None"
    and "write_error env path (chain_output env (Commands fmt) A) = None"
  shows "fst (formatWrite env path fmt w) = Ok
       \<and> files (snd (formatWrite env path fmt w)) = (files w)(path \<mapsto> chain_output env (Commands fmt) A)
       \<and> stdout (snd (formatWrite env path fmt w)) = stdout w
       \<and> trace (snd (formatWrite env path fmt w)) =
           trace w @ EvOpenFile path # map EvRun (Commands fmt) @ [EvTruncate path, EvSeek path]
             @ (if chain_output env (Commands fmt) A = [] then [] else [EvWrite path (chain_output env (Commands fmt) A)])"
proof -
  let ?w1 = "emit (EvOpenFile path) w"
  from assms(1) have A: "file_unread ?w1 \<lparr>fname = path, offset = 0\<rparr> = A"
    by (simp add: file_unread_def contents_def)
  show ?thesis
    using assms A
    by (simp add: formatWrite_def os_OpenFile_Some formatChain_Buffer_succeeds file_Truncate_def
        file_Seek_def file_advance_def Let_def resize_def write_at_def contents_def)
qed

section \<open>Dispatch\<close>


lemma emacsToFormatter_None:
  "emacsToFormatter mode = None \<longleftrightarrow> (\<forall>f \<in> set formatters. mode \<notin> set (EmacsMajorModes f))"
  by (auto simp: emacsToFormatter_find find_None_iff)

lemma emacsToFormatter_Some:
  "emacsToFormatter mode = Some f \<Longrightarrow> f \<in> set formatters \<and> mode \<in> set (EmacsMajorModes f)"
  using find_member [of "\<lambda>f. mode \<in> set (EmacsMajorModes f)" "rev formatters" f]
  by (simp add: emacsToFormatter_find)

lemma formatterForEmacs_None:
  "emacs = [] \<or> (\<forall>f \<in> set formatters. emacs \<notin> set (EmacsMajorModes f)) \<Longrightarrow>
   formatterForEmacs emacs = None"
  by (auto simp: formatterForEmacs_def emacsToFormatter_None [THEN iffD2])

lemma formatterForPath_None:
  "\<forall>g \<in> set formatters. filepath_Ext path \<notin> set (Extensions g) \<Longrightarrow> formatterForPath path = None"
  by (simp add: formatterForPath_lookup extToFormatter_None)

lemma table_commands_nonempty:
  "f \<in> set formatters \<Longrightarrow> command \<in> set (Commands f) \<Longrightarrow> command \<noteq> []"
  by (auto simp: formatters_def)

lemma format_no_panic:
  "command \<noteq> [] \<Longrightarrow> fst (format env dst src command w) \<noteq> Panic msg"
  by (cases "status (run_process env command src)") (simp_all add: format_Cons)

lemma io_Copy_Stdout_frame:
  "\<exists>es. files (snd (snd (io_Copy env Stdout data w))) = files w
      \<and> trace (snd (snd (io_Copy env Stdout data w))) = trace w @ es
      \<and> (\<forall>e \<in> set es. \<not> touches_file e)"
  by (cases "stdout_error env data") (auto simp: emit_def)

lemma formatChain_Stdout_frame:
  "\<exists>es. files (snd (snd (snd (formatChain env Stdout src chain w)))) = files w
      \<and> trace (snd (snd (snd (formatChain env Stdout src chain w)))) = trace w @ es
      \<and> (\<forall>e \<in> set es. \<not> touches_file e)"
proof -
  obtain out unread buf w' where l: "formatChain_loop env 0 chain src [] [] w = (out, unread, buf, w')"
    by (metis prod_cases4)
  with loop_world [of env chain src w]
  obtain es where es: "w' = w\<lparr>trace := trace w @ es\<rparr>" "\<forall>e \<in> set es. is_run e" by auto
  show ?thesis
  proof (cases "out = Ok")
    case False
    with l es show ?thesis
      by (intro exI [of _ es]) (simp add: formatChain_def is_run_not_touches)
  next
    case True
    obtain es' where es': "files (snd (snd (io_Copy env Stdout buf w'))) = files w'"
      "trace (snd (snd (io_Copy env Stdout buf w'))) = trace w' @ es'"
      "\<forall>e \<in> set es'. \<not> touches_file e"
      using io_Copy_Stdout_frame by blast
    with True l es show ?thesis
      by (intro exI [of _ "es @ es'"])
         (auto simp: formatChain_def is_run_not_touches split: prod.splits)
  qed
qed

lemma formatStdout_frame:
  "files (snd (formatStdout env path fmt w)) = files w
   \<and> (\<forall>e \<in> set (drop (length (trace w)) (trace (snd (formatStdout env path fmt w)))). \<not> touches_file e)"
proof (cases "fst (os_Open env path w)")
  case (Inl err)
  then show ?thesis
    by (auto simp: formatStdout_def os_Open_def Let_def split: option.splits)
next
  case (Inr f)
  let ?w1 = "emit (EvOpen path) w"
  from Inr have o: "os_Open env path w = (Inr f, ?w1)"
    by (auto simp: os_Open_def Let_def split: option.splits)
  obtain es where es:
    "files (snd (snd (snd (formatChain env Stdout (file_unread ?w1 f) (Commands fmt) ?w1)))) = files ?w1"
    "trace (snd (snd (snd (formatChain env Stdout (file_unread ?w1 f) (Commands fmt) ?w1)))) = trace ?w1 @ es"
    "\<forall>e \<in> set es. \<not> touches_file e"
    using formatChain_Stdout_frame by blast
  with o show ?thesis
    by (auto simp: formatStdout_def split: prod.splits)
qed

lemma main_2_drops_first:
  "rest \<noteq> [] \<or> first \<noteq> ''-'' \<Longrightarrow>
   main_2 env emacs write (first # rest) w =
     main_loop_2 env (if write then formatWrite else formatStdout) rest w"
  by (cases rest) (simp_all add: main_2_def)

lemma main_starts_with_first:
  "rest \<noteq> [] \<or> first \<noteq> ''-'' \<Longrightarrow>
   main env emacs write (first # rest) w =
     main_loop env (if write then formatWrite else formatStdout) (first # rest) w"
  by (cases rest) (simp_all add: main_def)

section \<open>Concrete runs\<close>

lemma Ext_a_py: "filepath_Ext ''lib/a.py'' = ''.py''"
  using filepath_Ext_suffix [of "''py''" "''lib/a''"] by (simp add: IsPathSeparator_def)

lemma Ext_a_go: "filepath_Ext ''a.go'' = ''.go''"
  using filepath_Ext_suffix [of "''go''" "''a''"] by (simp add: IsPathSeparator_def)

lemma Ext_a_xyz: "filepath_Ext ''a.xyz'' = ''.xyz''"
  using filepath_Ext_suffix [of "''xyz''" "''a''"] by (simp add: IsPathSeparator_def)

lemma python_formatter_in_table: "python_formatter \<in> set formatters"
  by (simp add: formatters_def python_formatter_def)

lemma go_formatter_in_table: "go_formatter \<in> set formatters"
  by (simp add: formatters_def go_formatter_def)

lemma xyz_unregistered: "''.xyz'' \<notin> set (concat (map Extensions formatters))"
  by (simp add: formatters_def)

lemma foo_mode_unregistered: "''foo-mode'' \<notin> set (concat (map EmacsMajorModes formatters))"
  by (simp add: formatters_def)

lemma tagging_python_succeeds: "stages_succeed tagging_env (Commands python_formatter) ''x=1''"
  by (simp add: python_formatter_def tagging_env_def tag_process_def)

lemma tagging_python_output:
  "chain_output tagging_env (Commands python_formatter) ''x=1'' = ''x=1[autopep8][isort]''"
  by (simp add: chain_output_def python_formatter_def tagging_env_def tag_process_def)

lemma tagging_python_pipeline:
  "pipeline tagging_env (Commands python_formatter) ''x=1'' = ''x=1[autopep8][isort]''"
  by (simp add: python_formatter_def tagging_env_def tag_process_def)

lemma disk_full_python_succeeds: "stages_succeed disk_full_env (Commands python_formatter) ''x=1''"
  by (simp add: python_formatter_def disk_full_env_def tagging_env_def tag_process_def)

lemma disk_full_python_output:
  "chain_output disk_full_env (Commands python_formatter) ''x=1'' = ''x=1[autopep8][isort]''"
  by (simp add: chain_output_def python_formatter_def disk_full_env_def tagging_env_def tag_process_def)

lemma isort_fails_python: "\<not> stages_succeed isort_fails_env (Commands python_formatter) ''x=1''"
  by (simp add: python_formatter_def isort_fails_env_def tagging_env_def tag_process_def)

lemma small_world_a_py: "files small_world ''a.py'' = Some ''x=1''"
  by (simp add: small_world_def)

lemma formatWrite_write_fails:
  assumes "files w path = Some A" and "stages_succeed env (Commands fmt) A"
    and "openfile_error env path = None" and "truncate_error env path = None"
    and "seek_error env path = None"
    and "chain_output env (Commands fmt) A \<noteq> []"
    and "write_error env path (chain_output env (Commands fmt) A) = Some (n, err)"
  shows "fst (formatWrite env path fmt w) = Err err
       \<and> files (snd (formatWrite env path fmt w)) = (files w)(path \<mapsto> take n (chain_output env (Commands fmt) A))"
proof -
  let ?w1 = "emit (EvOpenFile path) w"
  from assms(1) have A: "file_unread ?w1 \<lparr>fname = path, offset = 0\<rparr> = A"
    by (simp add: file_unread_def contents_def)
  show ?thesis
    using assms A
    by (simp add: formatWrite_def os_OpenFile_Some formatChain_Buffer_succeeds file_Truncate_def
        file_Seek_def file_advance_def Let_def resize_def write_at_def contents_def)
qed

lemma disk_full_formatWrite:
  "fst (formatWrite disk_full_env ''a.py'' python_formatter small_world) = Err (PathError ''write'' ''a.py'')
   \<and> files (snd (formatWrite disk_full_env ''a.py'' python_formatter small_world)) ''a.py'' = Some ''x''"
  using formatWrite_write_fails [OF small_world_a_py disk_full_python_succeeds, of 1 "PathError ''write'' ''a.py''"]
  by (simp add: disk_full_python_output) (simp add: disk_full_env_def tagging_env_def)

section \<open>The properties\<close>

text \<open>
  C1, as amended. \<open>formatWrite\<close> on a file holding \<open>A\<close>: when some stage of the
  chain fails, the call does not succeed, every file holds what it held before, and no
  truncate, seek or write was made. When every stage succeeds and opening,
  truncating, seeking and writing the file all succeed, the file holds exactly what
  the chain produced, the calls being made in this order: open, the commands, truncate,
  seek, write.
\<close>

theorem formatWrite_all_or_nothing:
  assumes "files w path = Some A"
  shows "(\<not> stages_succeed env (Commands fmt) A \<longrightarrow>
            fst (formatWrite env path fmt w) \<noteq> Ok
          \<and> files (snd (formatWrite env path fmt w)) = files w
          \<and> (\<forall>e \<in> set (drop (length (trace w)) (trace (snd (formatWrite env path fmt w)))).
                \<not> touches_file e))
       \<and> (stages_succeed env (Commands fmt) A \<and> openfile_error env path = None
          \<and> truncate_error env path = None \<and> seek_error env path = None
          \<and> write_error env path (chain_output env (Commands fmt) A) = None \<longrightarrow>
            fst (formatWrite env path fmt w) = Ok
          \<and> files (snd (formatWrite env path fmt w)) =
              (files w)(path \<mapsto> chain_output env (Commands fmt) A)
          \<and> trace (snd (formatWrite env path fmt w)) =
              trace w @ EvOpenFile path # map EvRun (Commands fmt) @ [EvTruncate path, EvSeek path]
                @ (if chain_output env (Commands fmt) A = [] then []
                   else [EvWrite path (chain_output env (Commands fmt) A)]))"
  using formatWrite_chain_fails [OF assms] formatWrite_chain_succeeds [OF assms] by blast

theorem formatWrite_all_or_nothing_witness:
  "files small_world ''a.py'' = Some ''x=1''
   \<and> \<not> stages_succeed isort_fails_env (Commands python_formatter) ''x=1''
   \<and> fst (formatWrite isort_fails_env ''a.py'' python_formatter small_world) \<noteq> Ok
   \<and> files (snd (formatWrite isort_fails_env ''a.py'' python_formatter small_world)) = files small_world
   \<and> stages_succeed tagging_env (Commands python_formatter) ''x=1''
   \<and> fst (formatWrite tagging_env ''a.py'' python_formatter small_world) = Ok
   \<and> files (snd (formatWrite tagging_env ''a.py'' python_formatter small_world)) ''a.py''
       = Some ''x=1[autopep8][isort]''"
proof -
  note fails = formatWrite_all_or_nothing [OF small_world_a_py, of isort_fails_env python_formatter]
  note succeeds = formatWrite_all_or_nothing [OF small_world_a_py, of tagging_env python_formatter]
  have "openfile_error tagging_env ''a.py'' = None" "truncate_error tagging_env ''a.py'' = None"
    "seek_error tagging_env ''a.py'' = None"
    "write_error tagging_env ''a.py'' (chain_output tagging_env (Commands python_formatter) ''x=1'') = None"
    by (simp_all add: tagging_env_def)
  with succeeds tagging_python_succeeds tagging_python_output
  have "fst (formatWrite tagging_env ''a.py'' python_formatter small_world) = Ok"
    "files (snd (formatWrite tagging_env ''a.py'' python_formatter small_world)) ''a.py''
       = Some ''x=1[autopep8][isort]''"
    by simp_all
  with fails isort_fails_python small_world_a_py tagging_python_succeeds show ?thesis by blast
qed

text \<open>
  C1 as it is stated fails when the write does: every stage succeeds and the chain
  produces \<open>x=1[autopep8][isort]\<close>, the file has been truncated, the write ends
  after one byte, and the file holds neither the new bytes nor the old ones.
\<close>

theorem formatWrite_failed_write_counterexample:
  "files small_world ''a.py'' = Some ''x=1''
   \<and> stages_succeed disk_full_env (Commands python_formatter) ''x=1''
   \<and> chain_output disk_full_env (Commands python_formatter) ''x=1'' = ''x=1[autopep8][isort]''
   \<and> fst (formatWrite disk_full_env ''a.py'' python_formatter small_world)
       = Err (PathError ''write'' ''a.py'')
   \<and> files (snd (formatWrite disk_full_env ''a.py'' python_formatter small_world)) ''a.py''
       = Some ''x''"
  using small_world_a_py disk_full_python_succeeds disk_full_python_output disk_full_formatWrite
  by blast

text \<open>
  C2. For a chain that is not empty and whose stages all succeed, what \<open>formatChain\<close>
  copies to its destination is the composition of the commands' outputs in the order
  they are declared, each command having run once in that order; into a buffer the
  copy cannot fail. For a chain of one command the result is that of \<open>format\<close> for
  this command on the original input.
\<close>

theorem formatChain_composes_in_order:
  assumes "commandChain \<noteq> []" and "stages_succeed env commandChain src"
  shows "formatChain env dst src commandChain w =
       (case io_Copy env dst (pipeline env commandChain src)
               (w\<lparr>trace := trace w @ map EvRun commandChain\<rparr>) of
          (err, dst', w') \<Rightarrow> (of_err err, dst', left_unread env commandChain src, w'))
     \<and> formatChain env (Buffer b) src commandChain w =
       (Ok, Buffer (b @ pipeline env commandChain src), left_unread env commandChain src,
        w\<lparr>trace := trace w @ map EvRun commandChain\<rparr>)
     \<and> (\<forall>command. commandChain = [command] \<longrightarrow>
          formatChain env (Buffer []) src commandChain w =
            (case format env [] src command w of
               (out, buf, unread, w') \<Rightarrow> (out, Buffer buf, unread, w')))"
  using assms
  by (auto simp: formatChain_succeeds format_Cons left_unread_def of_err_Ok_iff emit_def)

theorem formatChain_composes_in_order_witness:
  "Commands python_formatter \<noteq> []
   \<and> stages_succeed tagging_env (Commands python_formatter) ''x=1''
   \<and> fst (formatChain tagging_env (Buffer []) ''x=1'' (Commands python_formatter) small_world) = Ok
   \<and> fst (snd (formatChain tagging_env (Buffer []) ''x=1'' (Commands python_formatter) small_world))
       = Buffer ''x=1[autopep8][isort]''"
proof -
  have ne: "Commands python_formatter \<noteq> []" by (simp add: python_formatter_def)
  from formatChain_composes_in_order [OF ne tagging_python_succeeds, where b = "[]" and w = small_world]
  have "formatChain tagging_env (Buffer []) ''x=1'' (Commands python_formatter) small_world =
      (Ok, Buffer ([] @ pipeline tagging_env (Commands python_formatter) ''x=1''),
       left_unread tagging_env (Commands python_formatter) ''x=1'',
       small_world\<lparr>trace := trace small_world @ map EvRun (Commands python_formatter)\<rparr>)"
    by blast
  with ne tagging_python_succeeds show ?thesis by (simp add: tagging_python_pipeline)
qed

text \<open>
  C3. When the stages before index \<open>i\<close> succeed and the command at \<open>i\<close> ends with
  the error \<open>err\<close>, \<open>formatChain\<close> returns exactly \<open>err\<close>, has run the commands up
  to \<open>i\<close> and none after it, and leaves the destination and the world as they were,
  the record of the commands run apart: nothing is written.
\<close>

theorem formatChain_short_circuits:
  assumes "i < length commandChain"
    and "stages_succeed env (take i commandChain) src"
    and "commandChain ! i \<noteq> []"
    and "status (run_process env (commandChain ! i) (pipeline env (take i commandChain) src)) = Some err"
  shows "formatChain env dst src commandChain w =
     (Err err, dst, left_unread env commandChain src,
      w\<lparr>trace := trace w @ map EvRun (take (Suc i) commandChain)\<rparr>)"
proof -
  let ?c = "commandChain ! i"
  from assms(1) have split: "commandChain = take i commandChain @ ?c # drop (Suc i) commandChain"
    by (rule id_take_nth_drop)
  from assms(1) have tk: "take (Suc i) commandChain = take i commandChain @ [?c]"
    by (rule take_Suc_conv_app_nth)
  show ?thesis
    using formatChain_fails [OF assms(2) assms(3) assms(4), of dst "drop (Suc i) commandChain" w]
      split tk
    by simp
qed

theorem formatChain_short_circuits_witness:
  "Suc 0 < length (Commands python_formatter)
   \<and> stages_succeed isort_fails_env (take (Suc 0) (Commands python_formatter)) ''x=1''
   \<and> Commands python_formatter ! Suc 0 \<noteq> []
   \<and> status (run_process isort_fails_env (Commands python_formatter ! Suc 0)
        (pipeline isort_fails_env (take (Suc 0) (Commands python_formatter)) ''x=1''))
       = Some (ExecError (Commands python_formatter ! Suc 0) 1)
   \<and> fst (formatChain isort_fails_env Stdout ''x=1'' (Commands python_formatter) small_world)
       = Err (ExecError (Commands python_formatter ! Suc 0) 1)
   \<and> stdout (snd (snd (snd
        (formatChain isort_fails_env Stdout ''x=1'' (Commands python_formatter) small_world)))) = []
   \<and> trace (snd (snd (snd
        (formatChain isort_fails_env Stdout ''x=1'' (Commands python_formatter) small_world))))
       = map EvRun (Commands python_formatter)"
proof -
  have a: "Suc 0 < length (Commands python_formatter)" by (simp add: python_formatter_def)
  have b: "stages_succeed isort_fails_env (take (Suc 0) (Commands python_formatter)) ''x=1''"
    by (simp add: python_formatter_def isort_fails_env_def tagging_env_def tag_process_def)
  have c: "Commands python_formatter ! Suc 0 \<noteq> []" by (simp add: python_formatter_def)
  have d: "status (run_process isort_fails_env (Commands python_formatter ! Suc 0)
        (pipeline isort_fails_env (take (Suc 0) (Commands python_formatter)) ''x=1''))
       = Some (ExecError (Commands python_formatter ! Suc 0) 1)"
    by (simp add: python_formatter_def isort_fails_env_def tagging_env_def tag_process_def)
  have e: "take (Suc (Suc 0)) (Commands python_formatter) = Commands python_formatter"
    by (simp add: python_formatter_def)
  from formatChain_short_circuits [OF a b c d, of Stdout small_world] a b c d e
  show ?thesis by (simp add: small_world_def)
qed

text \<open>
  C4. \<open>formatterForPath\<close> gives, for every path, what the lookup of the substring
  from the last dot of the path to its end gives, and no formatter when the path has no
  dot. The extension the code takes, when it is not empty, is that substring; it is
  empty when a separator follows the last dot, and then the substring is no key of the
  map either.
\<close>

theorem formatterForPath_last_dot:
  "formatterForPath path = resolve_by_extension_spec path
   \<and> (CHR ''.'' \<notin> set path \<longrightarrow> formatterForPath path = None)
   \<and> (filepath_Ext path \<noteq> [] \<longrightarrow> last_dot_suffix path = Some (filepath_Ext path))"
proof (cases "CHR ''.'' \<in> set path")
  case False
  then show ?thesis
    by (simp add: formatterForPath_lookup resolve_by_extension_spec_def filepath_Ext_no_dot
        last_dot_suffix_None [THEN iffD2])
next
  case True
  then obtain p rest where path: "path = p @ CHR ''.'' # rest" and rest: "CHR ''.'' \<notin> set rest"
    by (auto dest: split_list_last)
  show ?thesis
  proof (cases "\<exists>c \<in> set rest. IsPathSeparator c")
    case True
    then have "extToFormatter (CHR ''.'' # rest) = None"
      by (intro separator_not_registered) auto
    with True rest path show ?thesis
      by (simp add: formatterForPath_lookup resolve_by_extension_spec_def filepath_Ext_separator
          last_dot_suffix_split)
  next
    case False
    with rest path show ?thesis
      by (simp add: formatterForPath_lookup resolve_by_extension_spec_def filepath_Ext_suffix
          last_dot_suffix_split)
  qed
qed

theorem formatterForPath_last_dot_witness:
  "CHR ''.'' \<notin> set ''Makefile'' \<and> formatterForPath ''Makefile'' = None
   \<and> filepath_Ext ''lib/a.py'' \<noteq> [] \<and> last_dot_suffix ''lib/a.py'' = Some ''.py''
   \<and> resolve_by_extension_spec ''lib/a.py'' = Some python_formatter
   \<and> formatterForPath ''lib/a.py'' = Some python_formatter"
proof -
  have "CHR ''.'' \<notin> set ''Makefile''" by simp
  with formatterForPath_last_dot [of "''Makefile''"]
  have m: "formatterForPath ''Makefile'' = None" by blast
  have "extToFormatter ''.py'' = Some python_formatter"
    by (rule extToFormatter_registered [OF python_formatter_in_table]) (simp add: python_formatter_def)
  then have "resolve_by_extension_spec ''lib/a.py'' = Some python_formatter"
    by (simp add: resolve_by_extension_spec_def)
  with formatterForPath_last_dot [of "''lib/a.py''"] m show ?thesis
    by (simp add: Ext_a_py)
qed

text \<open>
  C5. For every formatter of the table and every extension it lists, a path that
  ends in the extension resolves to that formatter; a path whose extension no formatter
  of the table lists resolves to none.
\<close>

theorem formatterForPath_registered:
  "(f \<in> set formatters \<and> ext \<in> set (Extensions f) \<longrightarrow> formatterForPath (p @ ext) = Some f)
   \<and> ((\<forall>g \<in> set formatters. filepath_Ext path \<notin> set (Extensions g)) \<longrightarrow>
        formatterForPath path = None)"
proof (intro conjI impI)
  assume a: "f \<in> set formatters \<and> ext \<in> set (Extensions f)"
  then obtain rest where "ext = CHR ''.'' # rest" "CHR ''.'' \<notin> set rest"
    "\<forall>c \<in> set rest. \<not> IsPathSeparator c"
    using registered_shape by blast
  then have "filepath_Ext (p @ ext) = ext" "ext \<noteq> []" by (simp_all add: filepath_Ext_suffix)
  then show "formatterForPath (p @ ext) = Some f"
    using a by (simp add: formatterForPath_lookup extToFormatter_registered)
next
  assume "\<forall>g \<in> set formatters. filepath_Ext path \<notin> set (Extensions g)"
  then show "formatterForPath path = None" by (rule formatterForPath_None)
qed

theorem formatterForPath_registered_witness:
  "python_formatter \<in> set formatters \<and> ''.py'' \<in> set (Extensions python_formatter)
   \<and> formatterForPath (''lib/a'' @ ''.py'') = Some python_formatter
   \<and> filepath_Ext ''a.xyz'' = ''.xyz'' \<and> ''.xyz'' \<notin> set (concat (map Extensions formatters))
   \<and> formatterForPath ''a.xyz'' = None"
proof -
  have e: "''.py'' \<in> set (Extensions python_formatter)" by (simp add: python_formatter_def)
  from xyz_unregistered have "\<forall>g \<in> set formatters. filepath_Ext ''a.xyz'' \<notin> set (Extensions g)"
    by (auto simp: Ext_a_xyz)
  with formatterForPath_registered [of python_formatter "''.py''" "''lib/a''" "''a.xyz''"]
    python_formatter_in_table e Ext_a_xyz xyz_unregistered
  show ?thesis by blast
qed

text \<open>
  C6. For a path whose extension no formatter of the table lists, \<open>formatFile\<close>
  returns without an error and leaves the world as it was: no file is opened and no
  command is run, whatever the operation it was given. The same holds for \<open>main\<close>
  called with this one path, when the path is no directory.
\<close>

theorem formatFile_unregistered_noop:
  assumes "\<forall>g \<in> set formatters. filepath_Ext path \<notin> set (Extensions g)"
  shows "formatFile env path op w = (Ok, w)
       \<and> (path \<noteq> ''-'' \<and> \<not> FileIsDir env path \<longrightarrow> main env emacs write [path] w = (Ok, w))"
  using assms by (simp add: formatFile_def main_def formatterForPath_None)

theorem formatFile_unregistered_noop_witness:
  "filepath_Ext ''a.xyz'' = ''.xyz'' \<and> ''.xyz'' \<notin> set (concat (map Extensions formatters))
   \<and> formatFile tagging_env ''a.xyz'' formatWrite small_world = (Ok, small_world)
   \<and> ''a.xyz'' \<noteq> ''-'' \<and> \<not> FileIsDir tagging_env ''a.xyz''
   \<and> main tagging_env [] True [''a.xyz''] small_world = (Ok, small_world)"
proof -
  from xyz_unregistered have u: "\<forall>g \<in> set formatters. filepath_Ext ''a.xyz'' \<notin> set (Extensions g)"
    by (auto simp: Ext_a_xyz)
  have d: "''a.xyz'' \<noteq> ''-''" "\<not> FileIsDir tagging_env ''a.xyz''"
    by (simp_all add: FileIsDir_def tagging_env_def)
  with formatFile_unregistered_noop [OF u, of tagging_env formatWrite small_world "[]" True]
    Ext_a_xyz xyz_unregistered
  show ?thesis by blast
qed

text \<open>
  C7. With an empty mode name, or one that no formatter of the table lists,
  \<open>formatStdin\<close> ends the process through \<open>log.Fatalln\<close> with the message
  \<open>Must be given an Emacs major mode\<close> and leaves the world as it was: no command is
  run and nothing is written to the standard output. So does \<open>main\<close> called with the
  single argument \<open>-\<close>.
\<close>

theorem formatStdin_unresolved_mode:
  assumes "emacs = [] \<or> (\<forall>f \<in> set formatters. emacs \<notin> set (EmacsMajorModes f))"
  shows "formatStdin env emacs w = (Fatal (LogString ''Must be given an Emacs major mode''), w)
       \<and> main env emacs write [''-''] w = (Fatal (LogString ''Must be given an Emacs major mode''), w)"
  using formatterForEmacs_None [OF assms] by (simp add: formatStdin_def main_def)

theorem formatStdin_unresolved_mode_witness:
  "formatStdin tagging_env [] small_world
     = (Fatal (LogString ''Must be given an Emacs major mode''), small_world)
   \<and> ''foo-mode'' \<notin> set (concat (map EmacsMajorModes formatters))
   \<and> formatStdin tagging_env ''foo-mode'' small_world
     = (Fatal (LogString ''Must be given an Emacs major mode''), small_world)
   \<and> main tagging_env ''foo-mode'' False [''-''] small_world
     = (Fatal (LogString ''Must be given an Emacs major mode''), small_world)"
proof -
  from foo_mode_unregistered
  have "''foo-mode'' = [] \<or> (\<forall>f \<in> set formatters. ''foo-mode'' \<notin> set (EmacsMajorModes f))"
    by auto
  from formatStdin_unresolved_mode [OF this, of tagging_env small_world False]
    formatStdin_unresolved_mode [of "[]" tagging_env small_world False] foo_mode_unregistered
  show ?thesis by blast
qed

text \<open>
  C8. \<open>formatStdout\<close> leaves every file as it was and makes no truncate, seek or
  write on a file, whether the file cannot be opened, a stage fails, the write to the
  standard output fails, or all succeeds.
\<close>

theorem formatStdout_keeps_files:
  "files (snd (formatStdout env path fmt w)) = files w
   \<and> (\<forall>e \<in> set (drop (length (trace w)) (trace (snd (formatStdout env path fmt w)))).
        \<not> touches_file e)"
  by (rule formatStdout_frame)

theorem formatStdout_keeps_files_witness:
  "files (snd (formatStdout isort_fails_env ''a.py'' python_formatter small_world)) = files small_world
   \<and> files (snd (formatStdout tagging_env ''a.py'' python_formatter small_world)) = files small_world
   \<and> files (snd (formatStdout tagging_env ''missing.py'' python_formatter small_world)) = files small_world"
  using formatStdout_keeps_files [of isort_fails_env "''a.py''" python_formatter small_world]
    formatStdout_keeps_files [of tagging_env "''a.py''" python_formatter small_world]
    formatStdout_keeps_files [of tagging_env "''missing.py''" python_formatter small_world]
  by blast

text \<open>
  C9 does not hold for the second copy of the program: its \<open>main\<close> loops over
  \<open>args[1:]\<close>, so called with the one path \<open>a.go\<close> it does nothing at all, in every
  environment. The \<open>main\<close> of \<^verbatim>\<open>metafmt.go\<close> opens the file and runs
  \<open>goimports\<close> on it.
\<close>

theorem main_2_skips_first_path:
  "main_2 env emacs write [''a.go''] w = (Ok, w)
   \<and> trace (snd (main tagging_env emacs False [''a.go''] small_world))
       = [EvOpen ''a.go'', EvRun [''goimports''], EvStdout ''package a[goimports]'']"
proof -
  have "extToFormatter ''.go'' = Some go_formatter"
    by (rule extToFormatter_registered [OF go_formatter_in_table]) (simp add: go_formatter_def)
  then have fmt: "formatterForPath ''a.go'' = Some go_formatter"
    by (simp add: formatterForPath_lookup Ext_a_go)
  have "main_2 env emacs write [''a.go''] w = (Ok, w)"
    by (simp add: main_2_def)
  moreover have "trace (snd (main tagging_env emacs False [''a.go''] small_world)) =
      [EvOpen ''a.go'', EvRun [''goimports''], EvStdout ''package a[goimports]'']"
    by (simp add: main_def FileIsDir_def formatFile_def fmt formatStdout_def os_Open_def
        formatChain_def format_def file_unread_def contents_def go_formatter_def
        tagging_env_def tag_process_def small_world_def Let_def emit_def)
  ultimately show ?thesis by simp
qed

text \<open>
  C10. Every command of every formatter of the table, and so of every formatter the
  two maps return, has a first token, and \<open>format\<close> does not panic on it.
\<close>

theorem registry_commands_nonempty:
  assumes "f \<in> set formatters \<or> extToFormatter key = Some f \<or> emacsToFormatter key = Some f"
    and "command \<in> set (Commands f)"
  shows "command \<noteq> [] \<and> (\<forall>msg. fst (format env dst src command w) \<noteq> Panic msg)"
proof -
  from assms(1) have "f \<in> set formatters"
    using extToFormatter_Some emacsToFormatter_Some by blast
  then have "command \<noteq> []" using assms(2) by (rule table_commands_nonempty)
  then show ?thesis by (simp add: format_no_panic)
qed

theorem registry_commands_nonempty_witness:
  "extToFormatter ''.py'' = Some python_formatter
   \<and> [''isort'', ''--line-width'', ''98'', ''--multi_line'', ''3'', ''-''] \<in> set (Commands python_formatter)
   \<and> fst (format tagging_env [] ''x=1'' [''isort'', ''--line-width'', ''98'', ''--multi_line'', ''3'', ''-'']
        small_world) = Ok"
proof -
  have k: "extToFormatter ''.py'' = Some python_formatter"
    by (rule extToFormatter_registered [OF python_formatter_in_table]) (simp add: python_formatter_def)
  have c: "[''isort'', ''--line-width'', ''98'', ''--multi_line'', ''3'', ''-''] \<in> set (Commands python_formatter)"
    by (simp add: python_formatter_def)
  have "fst (format tagging_env [] ''x=1'' [''isort'', ''--line-width'', ''98'', ''--multi_line'', ''3'', ''-'']
        small_world) = Ok"
    using registry_commands_nonempty [of python_formatter "''.py''" _ tagging_env "[]" "''x=1''" small_world,
        OF disjI2 [OF disjI1 [OF k]] c]
    by (simp add: format_def tagging_env_def tag_process_def)
  with k c show ?thesis by blast
qed

end
